theory Spec2Isabelle
  imports Main "HOL-Library.Multiset"
begin

unbundle bit_operations_syntax

section \<open>Go primitives used by the backend\<close>

text \<open>
  Instants are nanoseconds since the Unix epoch, durations are Go's \<^verbatim>\<open>time.Duration\<close>:
  a signed 64-bit count of nanoseconds.  Arithmetic on durations wraps around as Go's
  \<^verbatim>\<open>int64\<close> does; \<^verbatim>\<open>Time.Sub\<close> saturates, as its documentation says.
\<close>

type_synonym Time = int
type_synonym Duration = int

definition wrap64 :: "int \<Rightarrow> int" where
  "wrap64 x = (x + 2 ^ 63) mod 2 ^ 64 - 2 ^ 63"

definition minDuration :: Duration where
  "minDuration = - (2 ^ 63)"

definition maxDuration :: Duration where
  "maxDuration = 2 ^ 63 - 1"

definition Second :: Duration where
  "Second = 1000000000"

definition Minute :: Duration where
  "Minute = 60 * Second"

definition Hour :: Duration where
  "Hour = 60 * Minute"

definition dur_mul :: "Duration \<Rightarrow> Duration \<Rightarrow> Duration" where
  "dur_mul a b = wrap64 (a * b)"

definition dur_sub :: "Duration \<Rightarrow> Duration \<Rightarrow> Duration" where
  "dur_sub a b = wrap64 (a - b)"

definition dur_neg :: "Duration \<Rightarrow> Duration" where
  "dur_neg a = wrap64 (- a)"

text \<open>\<^verbatim>\<open>time.Unix(sec, 0)\<close>, and the methods \<^verbatim>\<open>Sub\<close>, \<^verbatim>\<open>Add\<close>, \<^verbatim>\<open>Unix\<close>, \<^verbatim>\<open>After\<close>.\<close>

definition time_Unix :: "int \<Rightarrow> Time" where
  "time_Unix sec = sec * Second"

definition Time_Sub :: "Time \<Rightarrow> Time \<Rightarrow> Duration" where
  "Time_Sub t u =
     (if t - u < minDuration then minDuration
      else if maxDuration < t - u then maxDuration
      else t - u)"

definition Time_Add :: "Time \<Rightarrow> Duration \<Rightarrow> Time" where
  "Time_Add t d = t + d"

definition Time_Unix :: "Time \<Rightarrow> int" where
  "Time_Unix t = t div Second"

definition Time_After :: "Time \<Rightarrow> Time \<Rightarrow> bool" where
  "Time_After t u = (u < t)"

subsection \<open>Errors\<close>

datatype error =
    ErrSyntax
  | ErrRange
  | errUnexpectedAgeFormat string
  | errStatusNotOK int
  | External string
  | Wrapped string error

subsection \<open>strconv\<close>

definition isDigit :: "char \<Rightarrow> bool" where
  "isDigit c = ((48::nat) \<le> of_char c \<and> (of_char c :: nat) \<le> 57)"

definition digitVal :: "char \<Rightarrow> nat" where
  "digitVal c = of_char c - 48"

text \<open>
  The digit loop of \<^verbatim>\<open>strconv.ParseUint(s, 10, 64)\<close>: the first character that is
  not a decimal digit is a syntax error, the first step that leaves 64 bits a range error.
\<close>

fun parseUint :: "nat \<Rightarrow> string \<Rightarrow> error + nat" where
  "parseUint n [] = Inr n"
| "parseUint n (c # cs) =
     (if \<not> isDigit c then Inl ErrSyntax
      else if 2 ^ 64 \<le> n * 10 + digitVal c then Inl ErrRange
      else parseUint (n * 10 + digitVal c) cs)"

text \<open>\<^verbatim>\<open>strconv.ParseInt(s, 10, 64)\<close>: an optional sign, then the digits.\<close>

definition ParseInt :: "string \<Rightarrow> error + int" where
  "ParseInt s =
     (case s of
        [] \<Rightarrow> Inl ErrSyntax
      | c # cs \<Rightarrow>
          (let neg = (c = CHR ''-'');
               ds = (if c = CHR ''+'' \<or> c = CHR ''-'' then cs else s)
           in if ds = [] then Inl ErrSyntax
              else (case parseUint 0 ds of
                      Inl e \<Rightarrow> Inl e
                    | Inr un \<Rightarrow>
                        if \<not> neg \<and> 2 ^ 63 \<le> un then Inl ErrRange
                        else if neg \<and> 2 ^ 63 < un then Inl ErrRange
                        else Inr (if neg then - int un else int un))))"

text \<open>\<^verbatim>\<open>strconv.Atoi\<close>; Go's \<^verbatim>\<open>int\<close> has 64 bits on the platforms the service is built for.\<close>

definition Atoi :: "string \<Rightarrow> error + int" where
  "Atoi s = ParseInt s"

section \<open>Front-page time extraction (fetchFrontPageTimesInner, parseAge)\<close>

text \<open>The class \<^verbatim>\<open>\s\<close> of Go's regexp: tab, newline, form feed, carriage return, space.\<close>

definition isSpace :: "char \<Rightarrow> bool" where
  "isSpace c = ((of_char c :: nat) \<in> {9, 10, 12, 13, 32})"

definition ageUnits :: "string list" where
  "ageUnits = [''hour'', ''hours'', ''minute'', ''minutes'', ''day'', ''days'']"

text \<open>
  \<^verbatim>\<open>relativeAgeRegex.FindStringSubmatch\<close> for the pattern
  \<^verbatim>\<open>^\s*(\d+)\s+(hour|hours|minute|minutes|day|days)\s*$\<close>.  The character classes of
  consecutive parts are disjoint, so the match, when there is one, is found by scanning:
  leading white space, the digits (group 1), white space, and the rest without its
  trailing white space (group 2).
\<close>

definition relativeAgeRegex :: "string \<Rightarrow> (string \<times> string) option" where
  "relativeAgeRegex s =
     (let s1 = dropWhile isSpace s;
          m1 = takeWhile isDigit s1;
          s2 = dropWhile isDigit s1;
          gap = takeWhile isSpace s2;
          s3 = dropWhile isSpace s2;
          m2 = rev (dropWhile isSpace (rev s3))
      in if m1 \<noteq> [] \<and> gap \<noteq> [] \<and> m2 \<in> set ageUnits then Some (m1, m2) else None)"

definition parseAge :: "string \<Rightarrow> error + Duration" where
  "parseAge s =
     (case relativeAgeRegex s of
        None \<Rightarrow> Inl (errUnexpectedAgeFormat s)
      | Some (m1, m2) \<Rightarrow>
          (case Atoi m1 of
             Inl e \<Rightarrow> Inl (Wrapped ''failed to parse age'' e)
           | Inr n \<Rightarrow>
               if m2 = ''minute'' \<or> m2 = ''minutes'' then Inr (dur_mul n Minute)
               else if m2 = ''hour'' \<or> m2 = ''hours'' then Inr (dur_mul n Hour)
               else if m2 = ''day'' \<or> m2 = ''days'' then Inr (dur_mul (dur_mul n 24) Hour)
               else Inl (errUnexpectedAgeFormat m2)))"

text \<open>
  One element of \<^verbatim>\<open>frontPageAgeExtractor.FindAllSubmatch(body, -1)\<close>: the three groups
  of a matched fragment (the absolute timestamp, the item id, the text before " ago").
\<close>

record submatch =
  match1 :: string
  match2 :: string
  match3 :: string

text \<open>
  The body of the loop over the matches: a parse error leaves the function, otherwise the
  drift between the absolute timestamp and the relative phrase decides what is stored.
\<close>

definition scrapeMatch :: "Time \<Rightarrow> (int \<rightharpoonup> int) \<Rightarrow> submatch \<Rightarrow> error + (int \<rightharpoonup> int)" where
  "scrapeMatch now m match =
     (case ParseInt (match1 match) of
        Inl e \<Rightarrow> Inl (Wrapped ''failed to parse time'' e)
      | Inr sec \<Rightarrow>
          (let t = time_Unix sec in
           case Atoi (match2 match) of
             Inl e \<Rightarrow> Inl (Wrapped ''failed to parse id'' e)
           | Inr i \<Rightarrow>
               (case parseAge (match3 match) of
                  Inl e \<Rightarrow> Inl e
                | Inr age \<Rightarrow>
                    (let diff = dur_sub (Time_Sub now t) age
                     in if 2 * Hour < diff
                        then Inr (m(i \<mapsto> Time_Unix (Time_Add now (dur_neg age))))
                        else Inr (m(i \<mapsto> sec))))))"

fun scrapeMatches :: "Time \<Rightarrow> (int \<rightharpoonup> int) \<Rightarrow> submatch list \<Rightarrow> error + (int \<rightharpoonup> int)" where
  "scrapeMatches now m [] = Inr m"
| "scrapeMatches now m (match # rest) =
     (case scrapeMatch now m match of
        Inl e \<Rightarrow> Inl e
      | Inr m' \<Rightarrow> scrapeMatches now m' rest)"

subsection \<open>The shared cache entry and the resolver\<close>

record fetchCacheEntry =
  cache_data :: "int \<rightharpoonup> int"
  cache_ts :: Time

text \<open>
  The process-wide state the resolver touches: \<^verbatim>\<open>fetchCache\<close>, and a counter of the calls
  of \<^verbatim>\<open>fetchFrontPageTimesInner\<close>, which the code does not keep and which only records
  that a fetch was attempted.
\<close>

record world =
  fetchCache :: "fetchCacheEntry option"
  fetchAttempts :: nat

text \<open>
  What the network does when asked: creating the request fails, executing it fails, or a
  response arrives with a status code and a body, whose reading fails or yields the
  fragments the extractor matches in it.
\<close>

datatype transport =
    NewRequestFails error
  | DoFails error
  | Response int "error + submatch list"

definition StatusOK :: int where
  "StatusOK = 200"

text \<open>\<^verbatim>\<open>storeTime\<close> is the reading of \<^verbatim>\<open>time.Now()\<close> taken when the entry is stored.\<close>

definition fetchFrontPageTimesInner ::
    "Time \<Rightarrow> Time \<Rightarrow> transport \<Rightarrow> world \<Rightarrow> (error + (int \<rightharpoonup> int)) \<times> world" where
  "fetchFrontPageTimesInner now storeTime net w =
     (let w1 = w\<lparr>fetchAttempts := Suc (fetchAttempts w)\<rparr> in
      case net of
        NewRequestFails e \<Rightarrow> (Inl (Wrapped ''failed to create request'' e), w1)
      | DoFails e \<Rightarrow> (Inl (Wrapped ''failed to execute request'' e), w1)
      | Response status body \<Rightarrow>
          if status \<noteq> StatusOK then (Inl (errStatusNotOK status), w1)
          else (case body of
                  Inl e \<Rightarrow> (Inl (Wrapped ''failed to read body'' e), w1)
                | Inr matches \<Rightarrow>
                    (case scrapeMatches now Map.empty matches of
                       Inl e \<Rightarrow> (Inl e, w1)
                     | Inr m \<Rightarrow>
                         (Inr m, w1\<lparr>fetchCache :=
                                     Some \<lparr>cache_data = m, cache_ts = storeTime\<rparr>\<rparr>))))"

text \<open>
  \<^verbatim>\<open>fetchGroup.Do\<close> with a single caller runs the function it is given; the error is
  wrapped on the way out.
\<close>

definition fetchGroup_Do ::
    "Time \<Rightarrow> Time \<Rightarrow> transport \<Rightarrow> world \<Rightarrow> (error + (int \<rightharpoonup> int)) \<times> world" where
  "fetchGroup_Do now storeTime net w =
     (case fetchFrontPageTimesInner now storeTime net w of
        (Inl e, w') \<Rightarrow> (Inl (Wrapped ''singleflight frontpage failed'' e), w')
      | (Inr m, w') \<Rightarrow> (Inr m, w'))"



section \<open>Items and the activity probe of the tree writer (findActiveChild)\<close>

text \<open>
  \<^verbatim>\<open>hn.Item\<close>, with the fields the backend reads: the id, the author handle, the Unix
  time of creation in seconds, the parent id (absent for a root), the two flags and the
  text payload.
\<close>

record Item =
  ID :: int
  By :: string
  Time :: int
  Parent :: "int option"
  Dead :: bool
  Deleted :: bool
  Text :: string

text \<open>
  \<^verbatim>\<open>hn.ItemSet\<close> is read through its elements only (a range loop), so it is the list of
  its elements; \<^verbatim>\<open>map[int]hn.ItemSet\<close> reads an absent parent id as the empty set.
\<close>

type_synonym ItemSet = "Item list"
type_synonym ItemTree = "int \<Rightarrow> ItemSet"

text \<open>The test \<^verbatim>\<open>time.Unix(x.Time, 0).After(activeAfter) && !x.Dead && !x.Deleted\<close>.\<close>

definition isActive :: "Item \<Rightarrow> Time \<Rightarrow> bool" where
  "isActive x activeAfter =
     (Time_After (time_Unix (Time x)) activeAfter \<and> \<not> Dead x \<and> \<not> Deleted x)"





section \<open>The handlers of main.go\<close>

text \<open>\<^verbatim>\<open>unl.FlatItem\<close>: an item and its depth below the root of the traversal.\<close>

record FlatItem =
  Item :: Item
  Depth :: int

record handleActiveRoot =
  root_Item :: Item
  root_Time :: int

record handleActiveResponseItem =
  resp_By :: string
  resp_Text :: string
  resp_Age :: string
  resp_ID :: int
  resp_Depth :: int
  resp_Active :: bool
  resp_SecondChance :: bool

record handleActiveResponse =
  Items :: "handleActiveResponseItem list"
  SecondChanceFailed :: bool

record handleItemDescendantsResponse =
  desc_By :: string
  desc_Text :: string
  desc_Time :: int
  desc_ID :: int
  desc_Depth :: int

text \<open>
  Modelled from the spec: the constants \<^verbatim>\<open>unl.ActiveMapSelf\<close> and \<^verbatim>\<open>unl.ActiveMapChild\<close>
  are declared outside the repository; the activity mark is a bitset over SELF and CHILD,
  so they are two distinct bits.
\<close>

definition ActiveMapSelf :: int where
  "ActiveMapSelf = 1"

definition ActiveMapChild :: int where
  "ActiveMapChild = 2"

text \<open>
  What the handlers call outside the repository, as parameters: the item-graph client and
  the \<^verbatim>\<open>unl\<close> package, the duration parser, and the text cache with a state of type \<open>'c\<close>.
  \<^verbatim>\<open>textCache_Get\<close> returns the value found for the one key asked for, if any.
\<close>

record 'c externals =
  FetchFrontPageTimes :: "Time \<Rightarrow> error + (int \<rightharpoonup> int)"
  GetActive :: "(int \<rightharpoonup> int) \<Rightarrow> Time \<Rightarrow> Time \<Rightarrow> int \<Rightarrow> int \<Rightarrow> error + (Item list \<times> ItemTree)"
  GetItems :: "int list \<Rightarrow> error + (int \<rightharpoonup> Item)"
  GetDescendants :: "(int \<rightharpoonup> Item) \<Rightarrow> error + ItemSet"
  GroupByParent :: "ItemSet \<Rightarrow> error + ItemTree"
  FlattenTree :: "Item \<Rightarrow> ItemTree \<Rightarrow> FlatItem list"
  BuildActiveMap :: "FlatItem list \<Rightarrow> Time \<Rightarrow> (int \<rightharpoonup> int)"
  PrettyFormatDuration :: "Duration \<Rightarrow> string"
  PrettyFormatTitle :: "Item \<Rightarrow> bool \<Rightarrow> string"
  ParseDuration :: "string \<Rightarrow> error + Duration"
  textCache_Get :: "'c \<Rightarrow> Item \<Rightarrow> string option \<times> 'c"
  textCache_Put :: "'c \<Rightarrow> Item \<Rightarrow> string \<Rightarrow> 'c"

text \<open>Reading a Go map of integers: an absent key reads as zero.\<close>

definition index0 :: "(int \<rightharpoonup> int) \<Rightarrow> int \<Rightarrow> int" where
  "index0 m k = (case m k of None \<Rightarrow> 0 | Some v \<Rightarrow> v)"

definition formatText :: "'c externals \<Rightarrow> Item \<Rightarrow> 'c \<Rightarrow> string \<times> 'c" where
  "formatText ext item c =
     (case textCache_Get ext c item of
        (Some v, c1) \<Rightarrow> (v, c1)
      | (None, c1) \<Rightarrow>
          (let text = PrettyFormatTitle ext item True
           in (text, textCache_Put ext c1 item text)))"

subsection \<open>getActiveRoots\<close>

fun getActiveRoots_range :: "(int \<rightharpoonup> int) \<Rightarrow> Time \<Rightarrow> Item list \<Rightarrow> handleActiveRoot list" where
  "getActiveRoots_range frontPageTimes agedAfter [] = []"
| "getActiveRoots_range frontPageTimes agedAfter (item # rest) =
     (let t = (case frontPageTimes (ID item) of Some adjusted \<Rightarrow> adjusted | None \<Rightarrow> Time item)
      in if Time_After (time_Unix t) agedAfter
         then \<lparr>root_Item = item, root_Time = t\<rparr>
                # getActiveRoots_range frontPageTimes agedAfter rest
         else getActiveRoots_range frontPageTimes agedAfter rest)"

text \<open>
  \<^verbatim>\<open>now2\<close> is the second reading of the clock, taken for \<^verbatim>\<open>agedAfter\<close>.  A nil map reads
  like the empty one.  The result is the error with the flag, or the roots, the tree and
  the flag.
\<close>

definition getActiveRoots ::
    "'c externals \<Rightarrow> Time \<Rightarrow> Time \<Rightarrow> Time \<Rightarrow> Duration \<Rightarrow> int
       \<Rightarrow> (error \<times> bool) + (handleActiveRoot list \<times> ItemTree \<times> bool)" where
  "getActiveRoots ext now now2 activeAfter maxAge minBy =
     (let (frontPageTimes, secondChanceFailed) =
            (case FetchFrontPageTimes ext now of
               Inl err \<Rightarrow> (Map.empty, True)
             | Inr m \<Rightarrow> (m, False));
          agedAfter = Time_Add now2 (dur_neg maxAge)
      in case GetActive ext frontPageTimes activeAfter agedAfter minBy 0 of
           Inl err \<Rightarrow> Inl (err, secondChanceFailed)
         | Inr (items, tree) \<Rightarrow>
             Inr (getActiveRoots_range frontPageTimes agedAfter items, tree, secondChanceFailed))"

subsection \<open>handleActive\<close>

record query =
  q_window :: "string option"
  q_max_age :: "string option"
  q_min_by :: "string option"
  q_user :: "string option"

definition DefaultQuery :: "string option \<Rightarrow> string \<Rightarrow> string" where
  "DefaultQuery v defaultValue = (case v of None \<Rightarrow> defaultValue | Some s \<Rightarrow> s)"

text \<open>A reply: the status code, and either the error object or the body.\<close>

datatype json_error = ErrorText string | ErrorOf error

datatype 'a reply = Reply int "json_error + 'a"

text \<open>The body of the loop over the flattened items of one root.\<close>

definition handleActive_item ::
    "'c externals \<Rightarrow> Time \<Rightarrow> int \<Rightarrow> handleActiveRoot \<Rightarrow> (int \<rightharpoonup> int) \<Rightarrow> FlatItem \<Rightarrow> 'c
       \<Rightarrow> handleActiveResponseItem \<times> 'c" where
  "handleActive_item ext now user root activeMap item c =
     (let ae = index0 activeMap (ID (Item item));
          isRoot = (ID (Item item) = ID (root_Item root));
          t = (if isRoot then root_Time root else Time (Item item));
          secondChance = (if isRoot then Time (Item item) \<noteq> root_Time root else False);
          (text, c') = (if ae \<noteq> 0 then formatText ext (Item item) c else ([], c));
          by = (if user \<noteq> 1 then [] else By (Item item))
      in (\<lparr>resp_By = by,
           resp_Text = text,
           resp_Age = PrettyFormatDuration ext (Time_Sub now (time_Unix t)),
           resp_ID = ID (Item item),
           resp_Depth = Depth item,
           resp_Active = (0 < ae AND ActiveMapSelf),
           resp_SecondChance = secondChance\<rparr>, c'))"

fun handleActive_flat ::
    "'c externals \<Rightarrow> Time \<Rightarrow> int \<Rightarrow> handleActiveRoot \<Rightarrow> (int \<rightharpoonup> int) \<Rightarrow> FlatItem list
       \<Rightarrow> handleActiveResponseItem list \<Rightarrow> 'c \<Rightarrow> handleActiveResponseItem list \<times> 'c" where
  "handleActive_flat ext now user root activeMap [] items c = (items, c)"
| "handleActive_flat ext now user root activeMap (item # rest) items c =
     (case handleActive_item ext now user root activeMap item c of
        (r, c') \<Rightarrow> handleActive_flat ext now user root activeMap rest (items @ [r]) c')"

text \<open>The loop over the roots; the root's entry of the activity map is overwritten.\<close>

fun handleActive_roots ::
    "'c externals \<Rightarrow> Time \<Rightarrow> Time \<Rightarrow> int \<Rightarrow> ItemTree \<Rightarrow> handleActiveRoot list
       \<Rightarrow> handleActiveResponseItem list \<Rightarrow> 'c \<Rightarrow> handleActiveResponseItem list \<times> 'c" where
  "handleActive_roots ext now activeAfter user tree [] items c = (items, c)"
| "handleActive_roots ext now activeAfter user tree (root # rest) items c =
     (let flat = FlattenTree ext (root_Item root) tree;
          activeMap = (BuildActiveMap ext flat activeAfter)(ID (root_Item root) \<mapsto> ActiveMapChild)
      in case handleActive_flat ext now user root activeMap flat items c of
           (items', c') \<Rightarrow> handleActive_roots ext now activeAfter user tree rest items' c')"

definition StatusBadRequest :: int where
  "StatusBadRequest = 400"

definition StatusInternalServerError :: int where
  "StatusInternalServerError = 500"

definition handleActive ::
    "'c externals \<Rightarrow> query \<Rightarrow> Time \<Rightarrow> Time \<Rightarrow> 'c \<Rightarrow> handleActiveResponse reply \<times> 'c" where
  "handleActive ext q now now2 c =
     (case ParseDuration ext (DefaultQuery (q_window q) ''1h'') of
        Inl err \<Rightarrow> (Reply StatusBadRequest (Inl (ErrorText ''invalid window duration'')), c)
      | Inr window \<Rightarrow>
     (case ParseDuration ext (DefaultQuery (q_max_age q) ''24h'') of
        Inl err \<Rightarrow> (Reply StatusBadRequest (Inl (ErrorText ''invalid max_age duration'')), c)
      | Inr maxAge \<Rightarrow>
     (case Atoi (DefaultQuery (q_min_by q) ''3'') of
        Inl err \<Rightarrow> (Reply StatusBadRequest (Inl (ErrorText ''invalid min_by'')), c)
      | Inr minBy \<Rightarrow>
     (case Atoi (DefaultQuery (q_user q) ''1'') of
        Inl err \<Rightarrow> (Reply StatusBadRequest (Inl (ErrorText ''invalid user'')), c)
      | Inr user \<Rightarrow>
          (let activeAfter = Time_Add now (dur_neg window)
           in case getActiveRoots ext now now2 activeAfter maxAge minBy of
                Inl (err, secondChanceFailed) \<Rightarrow>
                  (Reply StatusInternalServerError (Inl (ErrorOf err)), c)
              | Inr (roots, tree, secondChanceFailed) \<Rightarrow>
                  (case handleActive_roots ext now activeAfter user tree roots [] c of
                     (items, c') \<Rightarrow>
                       (Reply StatusOK
                          (Inr \<lparr>Items = items, SecondChanceFailed = secondChanceFailed\<rparr>),
                        c')))))))"

subsection \<open>handleItemDescendants\<close>

fun handleItemDescendants_flat ::
    "'c externals \<Rightarrow> int \<Rightarrow> FlatItem list \<Rightarrow> handleItemDescendantsResponse list \<Rightarrow> 'c
       \<Rightarrow> handleItemDescendantsResponse list \<times> 'c" where
  "handleItemDescendants_flat ext user [] response c = (response, c)"
| "handleItemDescendants_flat ext user (f # rest) response c =
     (let by = (if user \<noteq> 1 then [] else By (Item f))
      in case formatText ext (Item f) c of
           (text, c') \<Rightarrow>
             handleItemDescendants_flat ext user rest
               (response @ [\<lparr>desc_By = by, desc_Text = text, desc_Time = Time (Item f),
                              desc_ID = ID (Item f), desc_Depth = Depth f\<rparr>]) c')"

text \<open>
  \<^verbatim>\<open>idParam\<close> is the path parameter.  The item the handler flattens is \<^verbatim>\<open>items[itemID]\<close>;
  when the client's answer lacks that id the handler holds a nil item, and what the
  flattening does with it is outside the repository: the model gives no reply then.
\<close>

definition handleItemDescendants ::
    "'c externals \<Rightarrow> string \<Rightarrow> query \<Rightarrow> 'c
       \<Rightarrow> (handleItemDescendantsResponse list reply \<times> 'c) option" where
  "handleItemDescendants ext idParam q c =
     (case Atoi idParam of
        Inl err \<Rightarrow> Some (Reply StatusBadRequest (Inl (ErrorText ''invalid id'')), c)
      | Inr itemID \<Rightarrow>
     (case GetItems ext [itemID] of
        Inl err \<Rightarrow> Some (Reply StatusBadRequest (Inl (ErrorText ''failed to retrieve item'')), c)
      | Inr items \<Rightarrow>
     (case GetDescendants ext items of
        Inl err \<Rightarrow>
          Some (Reply StatusBadRequest (Inl (ErrorText ''failed to retrieve item descendants'')), c)
      | Inr all \<Rightarrow>
     (case GroupByParent ext all of
        Inl err \<Rightarrow>
          Some (Reply StatusBadRequest
                  (Inl (ErrorText ''failed to group item descendants by parent'')), c)
      | Inr allByParent \<Rightarrow>
     (case items itemID of
        None \<Rightarrow> None
      | Some item \<Rightarrow>
          (let flat = FlattenTree ext item allByParent
           in case Atoi (DefaultQuery (q_user q) ''1'') of
                Inl err \<Rightarrow> Some (Reply StatusBadRequest (Inl (ErrorText ''invalid user'')), c)
              | Inr user \<Rightarrow>
                  (case handleItemDescendants_flat ext user flat [] c of
                     (response, c') \<Rightarrow> Some (Reply StatusOK (Inr response), c'))))))))"

section \<open>Root selection with sorting (getActiveRoots before the resolver moved out)\<close>



definition rootLess :: "handleActiveRoot \<Rightarrow> handleActiveRoot \<Rightarrow> bool" where
  "rootLess a b =
     (if root_Time a = root_Time b then ID (root_Item b) < ID (root_Item a)
      else root_Time b < root_Time a)"

text \<open>
  The order the specification asks of the roots: effective time descending, ties broken by
  id descending.
\<close>

definition spec_rootOrder :: "handleActiveRoot \<Rightarrow> handleActiveRoot \<Rightarrow> bool" where
  "spec_rootOrder a b =
     (root_Time b < root_Time a
      \<or> (root_Time a = root_Time b \<and> ID (root_Item b) \<le> ID (root_Item a)))"

fun getActiveRoots_sorted_range ::
    "(int \<rightharpoonup> int) \<Rightarrow> Time \<Rightarrow> Item list \<Rightarrow> handleActiveRoot list" where
  "getActiveRoots_sorted_range frontPageTimes agedAfter [] = []"
| "getActiveRoots_sorted_range frontPageTimes agedAfter (item # rest) =
     (let t = (case frontPageTimes (ID item) of
                 Some updated \<Rightarrow> if Time item < updated then updated else Time item
               | None \<Rightarrow> Time item)
      in if Time_After (time_Unix t) agedAfter
         then \<lparr>root_Item = item, root_Time = t\<rparr>
                # getActiveRoots_sorted_range frontPageTimes agedAfter rest
         else getActiveRoots_sorted_range frontPageTimes agedAfter rest)"



section \<open>Concrete inputs of the examples\<close>





definition example_now :: Time where
  "example_now = time_Unix 1700000000"

text \<open>Ten hours old by its timestamp, five hours old by its phrase.\<close>

definition example_fragment :: submatch where
  "example_fragment =
     \<lparr>match1 = ''1699964000'', match2 = ''38000000'', match3 = ''5 hours''\<rparr>"

text \<open>Thirty minutes old by its timestamp, with the phrase given.\<close>

definition example_recent :: "string \<Rightarrow> submatch" where
  "example_recent phrase = \<lparr>match1 = ''1699998200'', match2 = ''38000001'', match3 = phrase\<rparr>"

definition example_malformed :: submatch where
  "example_malformed =
     \<lparr>match1 = ''1699998200'', match2 = ''38000002'', match3 = ''5 hourss''\<rparr>"

definition example_world :: world where
  "example_world = \<lparr>fetchCache = None, fetchAttempts = 0\<rparr>"




text \<open>
  Stand-ins for the collaborators in the examples: a flattening for trees of depth at most
  one, a classifier that sets SELF on the nodes that are themselves active (no node of the
  examples has an active descendant), a duration parser for the two default values, and a
  text cache that holds nothing.
\<close>

definition example_story :: Item where
  "example_story = \<lparr>ID = 100, By = ''dave'', Time = 1699999880, Parent = None, Dead = False,
                     Deleted = False, Text = ''a story''\<rparr>"

definition example_story2 :: Item where
  "example_story2 = \<lparr>ID = 200, By = ''erin'', Time = 1699999880, Parent = None, Dead = False,
                      Deleted = False, Text = ''another story''\<rparr>"

definition example_flatten :: "Item \<Rightarrow> ItemTree \<Rightarrow> FlatItem list" where
  "example_flatten item tree =
     \<lparr>Item = item, Depth = 0\<rparr> # map (\<lambda>c. \<lparr>Item = c, Depth = 1\<rparr>) (tree (ID item))"

definition example_marks :: "FlatItem list \<Rightarrow> Time \<Rightarrow> (int \<rightharpoonup> int)" where
  "example_marks flat activeAfter =
     (\<lambda>i. if \<exists>f\<in>set flat. ID (Item f) = i \<and> isActive (Item f) activeAfter
          then Some ActiveMapSelf else None)"

definition example_ParseDuration :: "string \<Rightarrow> error + Duration" where
  "example_ParseDuration s =
     (if s = ''1h'' then Inr Hour else if s = ''24h'' then Inr (24 * Hour) else Inl ErrSyntax)"

definition example_ext ::
    "error + (int \<rightharpoonup> int) \<Rightarrow> error + (Item list \<times> ItemTree) \<Rightarrow> unit externals" where
  "example_ext frontPage active =
     \<lparr>FetchFrontPageTimes = (\<lambda>now. frontPage),
      GetActive = (\<lambda>frontPageTimes activeAfter agedAfter minBy limit. active),
      GetItems = (\<lambda>ids. Inr [100 \<mapsto> example_story]),
      GetDescendants = (\<lambda>items. Inr []),
      GroupByParent = (\<lambda>all. Inr (\<lambda>i. [])),
      FlattenTree = example_flatten,
      BuildActiveMap = example_marks,
      PrettyFormatDuration = (\<lambda>d. []),
      PrettyFormatTitle = (\<lambda>item strip. Text item),
      ParseDuration = example_ParseDuration,
      textCache_Get = (\<lambda>c item. (None, c)),
      textCache_Put = (\<lambda>c item text. c)\<rparr>"

definition example_query :: "string option \<Rightarrow> query" where
  "example_query user = \<lparr>q_window = None, q_max_age = None, q_min_by = None, q_user = user\<rparr>"

definition example_stale :: Item where
  "example_stale = \<lparr>ID = 300, By = ''frank'', Time = 1500000000, Parent = None, Dead = False,
                     Deleted = False, Text = ''an old story''\<rparr>"

definition example_leaf_tree :: ItemTree where
  "example_leaf_tree i = []"

definition example_activeAfter :: Time where
  "example_activeAfter = Time_Add example_now (dur_neg Hour)"

definition example_agedAfter :: Time where
  "example_agedAfter = Time_Add example_now (dur_neg (24 * Hour))"

text \<open>The collaborators all answer; the front page reports nothing.\<close>

definition example_backend :: "unit externals" where
  "example_backend = example_ext (Inr Map.empty) (Inr ([example_story], example_leaf_tree))"

text \<open>The front page reports a later time for item 100; item 300 is older than a day.\<close>

definition example_promoted :: "unit externals" where
  "example_promoted =
     example_ext (Inr [100 \<mapsto> 1699999990]) (Inr ([example_story, example_stale], example_leaf_tree))"

text \<open>The front-page resolver fails; the item graph answers, or fails as well.\<close>

definition example_degraded :: "unit externals" where
  "example_degraded =
     example_ext (Inl (External ''front page unreachable''))
       (Inr ([example_story], example_leaf_tree))"

definition example_down :: "unit externals" where
  "example_down =
     example_ext (Inl (External ''front page unreachable''))
       (Inl (External ''items unavailable''))"

definition example_item :: "string \<Rightarrow> handleActiveResponseItem" where
  "example_item author =
     \<lparr>resp_By = author, resp_Text = ''a story'', resp_Age = [], resp_ID = 100,
      resp_Depth = 0, resp_Active = False, resp_SecondChance = False\<rparr>"

text \<open>Two candidates with the same time, ids 100 and 200, in that order.\<close>

definition example_getActive ::
    "Time \<Rightarrow> Time \<Rightarrow> int \<Rightarrow> int \<Rightarrow> error + (Item list \<times> ItemTree)" where
  "example_getActive activeAfter agedAfter minBy limit =
     Inr ([example_story, example_story2], example_leaf_tree)"

section \<open>The drift rule of the extraction\<close>










lemmas parse_defs = parseAge_def relativeAgeRegex_def ageUnits_def isSpace_def Atoi_def
  ParseInt_def isDigit_def digitVal_def dur_mul_def wrap64_def Hour_def Minute_def Second_def

lemmas time_defs = dur_sub_def dur_neg_def Time_Sub_def Time_Add_def Time_Unix_def
  time_Unix_def Time_After_def wrap64_def Hour_def Minute_def Second_def minDuration_def
  maxDuration_def






text \<open>
  The two worked examples of the specification, an absolute timestamp thirty minutes
  before \<open>now\<close>: with "2 hours" the drift is minus ninety minutes; with "5 hours" it is
  minus four and a half hours.  Neither exceeds two hours, and the code stores the
  absolute timestamp both times.
\<close>

lemma drift_examples:
  "scrapeMatches example_now Map.empty [example_recent ''2 hours''] =
     Inr [38000001 \<mapsto> 1699998200]"
  "scrapeMatches example_now Map.empty [example_recent ''5 hours''] =
     Inr [38000001 \<mapsto> 1699998200]"
  by (simp_all add: scrapeMatch_def example_recent_def example_now_def parse_defs time_defs)

section \<open>Failing closed, and the cache of the resolver\<close>

lemma scrapeMatch_age_fails:
  "parseAge (match3 f) = Inl e \<Longrightarrow> \<exists>err. scrapeMatch now m f = Inl err"
  by (simp add: scrapeMatch_def Let_def split: sum.splits)

lemma scrapeMatches_fails:
  assumes "f \<in> set matches" "parseAge (match3 f) = Inl e"
  shows "\<exists>err. scrapeMatches now m matches = Inl err"
  using assms
proof (induction matches arbitrary: m)
  case Nil
  then show ?case by simp
next
  case (Cons g rest)
  show ?case
  proof (cases "scrapeMatch now m g")
    case (Inl err)
    then show ?thesis by simp
  next
    case (Inr m1)
    with scrapeMatch_age_fails [OF Cons.prems(2), of now m] have "f \<noteq> g" by auto
    with Cons.prems(1) have "f \<in> set rest" by simp
    from Cons.IH [OF this Cons.prems(2)] Inr show ?thesis by simp
  qed
qed

text \<open>
  C4.  When the relative-age phrase of one matched fragment of the document does not
  parse, the scrape returns an error and no mapping, whatever the other fragments are, and
  the cache entry is not touched: the state differs from the one before only in the count
  of attempts.
\<close>

theorem C4_fail_closed:
  assumes "f \<in> set matches" "parseAge (match3 f) = Inl e"
  shows "\<exists>err.
           fetchFrontPageTimesInner now storeTime (Response StatusOK (Inr matches)) w =
             (Inl err, w\<lparr>fetchAttempts := Suc (fetchAttempts w)\<rparr>)
         \<and> fetchGroup_Do now storeTime (Response StatusOK (Inr matches)) w =
             (Inl (Wrapped ''singleflight frontpage failed'' err),
              w\<lparr>fetchAttempts := Suc (fetchAttempts w)\<rparr>)
         \<and> fetchCache (snd (fetchFrontPageTimesInner now storeTime
                              (Response StatusOK (Inr matches)) w)) = fetchCache w"
proof -
  from scrapeMatches_fails [OF assms] obtain err
    where "scrapeMatches now Map.empty matches = Inl err" by blast
  then have "fetchFrontPageTimesInner now storeTime (Response StatusOK (Inr matches)) w =
               (Inl err, w\<lparr>fetchAttempts := Suc (fetchAttempts w)\<rparr>)"
    by (simp add: fetchFrontPageTimesInner_def)
  then show ?thesis by (simp add: fetchGroup_Do_def)
qed

lemma example_malformed_age:
  "parseAge (match3 example_malformed) = Inl (errUnexpectedAgeFormat ''5 hourss'')"
  by (simp add: example_malformed_def parse_defs)

theorem C4_fail_closed_witness:
  "example_malformed \<in> set [example_fragment, example_malformed]
   \<and> parseAge (match3 example_malformed) = Inl (errUnexpectedAgeFormat ''5 hourss'')
   \<and> (\<exists>err. fetchFrontPageTimesInner example_now example_now
               (Response StatusOK (Inr [example_fragment, example_malformed])) example_world =
             (Inl err, example_world\<lparr>fetchAttempts := Suc (fetchAttempts example_world)\<rparr>))"
proof -
  have mem: "example_malformed \<in> set [example_fragment, example_malformed]" by simp
  from C4_fail_closed [OF mem example_malformed_age, of example_now example_now example_world]
  show ?thesis using mem example_malformed_age by blast
qed












section \<open>The activity probe looks at direct children\<close>





section \<open>The response of handleActive\<close>

lemmas example_defs = example_ext_def example_flatten_def example_marks_def
  example_ParseDuration_def example_query_def example_story_def example_story2_def
  example_stale_def example_leaf_tree_def example_activeAfter_def example_agedAfter_def
  example_backend_def example_promoted_def example_degraded_def example_down_def
  example_item_def example_getActive_def example_now_def

lemmas handler_defs = handleActive_def getActiveRoots_def handleActive_item_def formatText_def
  index0_def DefaultQuery_def ActiveMapSelf_def ActiveMapChild_def isActive_def
  StatusOK_def StatusBadRequest_def StatusInternalServerError_def

lemma handleActive_flat_items:
  "handleActive_flat ext now user root am flat items c = (out, c')
     \<Longrightarrow> \<exists>rs. out = items @ rs
            \<and> list_all2 (\<lambda>f r. \<exists>ck. r = fst (handleActive_item ext now user root am f ck)) flat rs"
proof (induction flat arbitrary: items c)
  case Nil
  then show ?case by simp
next
  case (Cons f rest)
  obtain r c1 where step: "handleActive_item ext now user root am f c = (r, c1)"
    by (cases "handleActive_item ext now user root am f c")
  with Cons.prems have "handleActive_flat ext now user root am rest (items @ [r]) c1 = (out, c')"
    by simp
  from Cons.IH [OF this] obtain rs where rs: "out = (items @ [r]) @ rs"
    and all: "list_all2 (\<lambda>f r. \<exists>ck. r = fst (handleActive_item ext now user root am f ck)) rest rs"
    by blast
  have "r = fst (handleActive_item ext now user root am f c)" using step by simp
  then have "list_all2 (\<lambda>f r. \<exists>ck. r = fst (handleActive_item ext now user root am f ck))
               (f # rest) (r # rs)"
    using all by auto
  with rs show ?case by (intro exI [of _ "r # rs"]) simp
qed

lemma handleActive_roots_items:
  "handleActive_roots ext now activeAfter user tree roots items c = (out, c')
     \<Longrightarrow> \<exists>rss. out = items @ concat rss
            \<and> list_all2 (\<lambda>root rs.
                 list_all2 (\<lambda>f r. \<exists>ck. r = fst (handleActive_item ext now user root
                      ((BuildActiveMap ext (FlattenTree ext (root_Item root) tree) activeAfter)
                         (ID (root_Item root) \<mapsto> ActiveMapChild)) f ck))
                   (FlattenTree ext (root_Item root) tree) rs) roots rss"
proof (induction roots arbitrary: items c)
  case Nil
  then show ?case by simp
next
  case (Cons root rest)
  let ?flat = "FlattenTree ext (root_Item root) tree"
  let ?am = "(BuildActiveMap ext ?flat activeAfter)(ID (root_Item root) \<mapsto> ActiveMapChild)"
  obtain items1 c1 where step: "handleActive_flat ext now user root ?am ?flat items c = (items1, c1)"
    by (cases "handleActive_flat ext now user root ?am ?flat items c")
  with Cons.prems have "handleActive_roots ext now activeAfter user tree rest items1 c1 = (out, c')"
    by (simp add: Let_def)
  from Cons.IH [OF this] obtain rss where rss: "out = items1 @ concat rss"
    and all: "list_all2 (\<lambda>root rs.
                 list_all2 (\<lambda>f r. \<exists>ck. r = fst (handleActive_item ext now user root
                      ((BuildActiveMap ext (FlattenTree ext (root_Item root) tree) activeAfter)
                         (ID (root_Item root) \<mapsto> ActiveMapChild)) f ck))
                   (FlattenTree ext (root_Item root) tree) rs) rest rss"
    by blast
  from handleActive_flat_items [OF step] obtain rs where rs: "items1 = items @ rs"
    and one: "list_all2 (\<lambda>f r. \<exists>ck. r = fst (handleActive_item ext now user root ?am f ck)) ?flat rs"
    by blast
  have "out = items @ concat (rs # rss)" using rs rss by simp
  moreover have "list_all2 (\<lambda>root rs.
                 list_all2 (\<lambda>f r. \<exists>ck. r = fst (handleActive_item ext now user root
                      ((BuildActiveMap ext (FlattenTree ext (root_Item root) tree) activeAfter)
                         (ID (root_Item root) \<mapsto> ActiveMapChild)) f ck))
                   (FlattenTree ext (root_Item root) tree) rs) (root # rest) (rs # rss)"
    using one all by (rule list_all2_Cons [THEN iffD2, OF conjI])
  ultimately show ?case by blast
qed

lemma handleActive_item_root:
  assumes "ID (Item f) = ID (root_Item root)"
  shows "resp_Text (fst (handleActive_item ext now user root (am(ID (root_Item root) \<mapsto> ActiveMapChild)) f c))
           = fst (formatText ext (Item f) c)"
    and "\<not> resp_Active (fst (handleActive_item ext now user root (am(ID (root_Item root) \<mapsto> ActiveMapChild)) f c))"
  using assms
  by (simp_all add: handleActive_item_def Let_def index0_def ActiveMapChild_def ActiveMapSelf_def
      split: prod.splits)

lemma handleActive_item_By:
  "resp_By (fst (handleActive_item ext now user root am f c)) = (if user = 1 then By (Item f) else [])"
  by (simp add: handleActive_item_def Let_def split: prod.splits)

lemma handleActive_item_other:
  assumes "ID (Item f) \<noteq> ID (root_Item root)"
  shows "resp_Active (fst (handleActive_item ext now user root (am(ID (root_Item root) \<mapsto> ActiveMapChild)) f c))
           = (0 < index0 am (ID (Item f)) AND ActiveMapSelf)"
  using assms
  by (simp_all add: handleActive_item_def Let_def index0_def split: prod.splits)

text \<open>
  C3, as the code has it.  In the items written for a root, every entry whose id is the
  root's carries the text that formatText returns for it, whatever mark the classifier
  computed, and reports Active = false: the root's entry of the activity map is replaced
  by CHILD alone, so its SELF bit is gone.  The entries of the other nodes report the SELF
  bit of the mark the classifier computed.
\<close>

theorem C3_root_forced_and_mark_replaced:
  assumes "handleActive_roots ext now activeAfter user tree roots items c = (out, c')"
  shows "\<exists>rss. out = items @ concat rss
          \<and> list_all2 (\<lambda>root rs.
               list_all2 (\<lambda>f r.
                   (ID (Item f) = ID (root_Item root)
                      \<longrightarrow> (\<exists>ck. resp_Text r = fst (formatText ext (Item f) ck))
                          \<and> \<not> resp_Active r)
                 \<and> (ID (Item f) \<noteq> ID (root_Item root)
                      \<longrightarrow> resp_Active r =
                            (0 < index0 (BuildActiveMap ext
                                   (FlattenTree ext (root_Item root) tree) activeAfter)
                                   (ID (Item f)) AND ActiveMapSelf)))
                 (FlattenTree ext (root_Item root) tree) rs) roots rss"
proof -
  from handleActive_roots_items [OF assms] obtain rss where rss: "out = items @ concat rss"
    and all: "list_all2 (\<lambda>root rs.
                 list_all2 (\<lambda>f r. \<exists>ck. r = fst (handleActive_item ext now user root
                      ((BuildActiveMap ext (FlattenTree ext (root_Item root) tree) activeAfter)
                         (ID (root_Item root) \<mapsto> ActiveMapChild)) f ck))
                   (FlattenTree ext (root_Item root) tree) rs) roots rss"
    by blast
  have "list_all2 (\<lambda>root rs.
               list_all2 (\<lambda>f r.
                   (ID (Item f) = ID (root_Item root)
                      \<longrightarrow> (\<exists>ck. resp_Text r = fst (formatText ext (Item f) ck))
                          \<and> \<not> resp_Active r)
                 \<and> (ID (Item f) \<noteq> ID (root_Item root)
                      \<longrightarrow> resp_Active r =
                            (0 < index0 (BuildActiveMap ext
                                   (FlattenTree ext (root_Item root) tree) activeAfter)
                                   (ID (Item f)) AND ActiveMapSelf)))
                 (FlattenTree ext (root_Item root) tree) rs) roots rss"
    using all
    by (rule list_all2_mono)
       (erule list_all2_mono, auto simp: handleActive_item_root handleActive_item_other)
  with rss show ?thesis by blast
qed

lemma example_backend_roots:
  "handleActive_roots example_backend example_now example_activeAfter 1 example_leaf_tree
     [\<lparr>root_Item = example_story, root_Time = Time example_story\<rparr>] [] () =
   ([example_item ''dave''], ())"
  by (simp add: example_defs handler_defs time_defs)

theorem C3_root_forced_and_mark_replaced_witness:
  "handleActive_roots example_backend example_now example_activeAfter 1 example_leaf_tree
     [\<lparr>root_Item = example_story, root_Time = Time example_story\<rparr>] [] () =
   ([example_item ''dave''], ())
   \<and> (\<exists>rss. [example_item ''dave''] = [] @ concat rss
          \<and> list_all2 (\<lambda>root rs.
               list_all2 (\<lambda>f r.
                   (ID (Item f) = ID (root_Item root)
                      \<longrightarrow> (\<exists>ck. resp_Text r = fst (formatText example_backend (Item f) ck))
                          \<and> \<not> resp_Active r)
                 \<and> (ID (Item f) \<noteq> ID (root_Item root)
                      \<longrightarrow> resp_Active r =
                            (0 < index0 (BuildActiveMap example_backend
                                   (FlattenTree example_backend (root_Item root) example_leaf_tree)
                                   example_activeAfter)
                                   (ID (Item f)) AND ActiveMapSelf)))
                 (FlattenTree example_backend (root_Item root) example_leaf_tree) rs)
               [\<lparr>root_Item = example_story, root_Time = Time example_story\<rparr>] rss)"
  using example_backend_roots
    C3_root_forced_and_mark_replaced [OF example_backend_roots]
  by (rule conjI)

text \<open>
  C3 as stated fails: the root was created two minutes before the request, inside the
  window of one hour, and the classifier marks it SELF; the response reports it with
  Active = false.
\<close>

theorem C3_counterexample:
  "isActive example_story example_activeAfter
   \<and> 0 < index0 (BuildActiveMap example_backend
                    (FlattenTree example_backend example_story example_leaf_tree)
                    example_activeAfter) (ID example_story) AND ActiveMapSelf
   \<and> handleActive example_backend (example_query None) example_now example_now () =
       (Reply StatusOK
          (Inr \<lparr>Items = [example_item ''dave''], SecondChanceFailed = False\<rparr>), ())
   \<and> \<not> resp_Active (example_item ''dave'')"
  by (simp add: example_defs handler_defs time_defs parse_defs)

section \<open>Root selection in main.go\<close>

lemma getActiveRoots_range_eq:
  "getActiveRoots_range frontPageTimes agedAfter items =
     map (\<lambda>item. \<lparr>root_Item = item,
                   root_Time = (case frontPageTimes (ID item) of
                                  Some adjusted \<Rightarrow> adjusted | None \<Rightarrow> Time item)\<rparr>)
       (filter (\<lambda>item. agedAfter < (case frontPageTimes (ID item) of
                                      Some adjusted \<Rightarrow> adjusted | None \<Rightarrow> Time item) * Second)
          items)"
  by (induction items) (simp_all add: Let_def Time_After_def time_Unix_def)

lemma handleActive_ok:
  assumes "handleActive ext q now now2 c = (Reply st (Inr resp), c')"
  obtains window maxAge minBy user roots tree where
    "ParseDuration ext (DefaultQuery (q_window q) ''1h'') = Inr window"
    "ParseDuration ext (DefaultQuery (q_max_age q) ''24h'') = Inr maxAge"
    "Atoi (DefaultQuery (q_min_by q) ''3'') = Inr minBy"
    "Atoi (DefaultQuery (q_user q) ''1'') = Inr user"
    "getActiveRoots ext now now2 (Time_Add now (dur_neg window)) maxAge minBy =
       Inr (roots, tree, SecondChanceFailed resp)"
    "handleActive_roots ext now (Time_Add now (dur_neg window)) user tree roots [] c =
       (Items resp, c')"
    "st = StatusOK"
  using assms
  by (auto simp: handleActive_def Let_def split: sum.splits prod.splits)










section \<open>The author field\<close>

lemma list_all2_map_eq:
  "list_all2 (\<lambda>x y. g y = h x) xs ys \<Longrightarrow> map g ys = map h xs"
  by (induction rule: list_all2_induct) simp_all

lemma list_all2_concat_eq:
  "list_all2 (\<lambda>x ys. map g ys = h x) xs yss \<Longrightarrow> map g (concat yss) = concat (map h xs)"
  by (induction rule: list_all2_induct) simp_all

lemma handleActive_roots_By:
  assumes "handleActive_roots ext now activeAfter user tree roots [] c = (out, c')"
  shows "map resp_By out =
           concat (map (\<lambda>root. map (\<lambda>f. if user = 1 then By (Item f) else [])
                                  (FlattenTree ext (root_Item root) tree)) roots)"
proof -
  from handleActive_roots_items [OF assms] obtain rss where rss: "out = concat rss"
    and all: "list_all2 (\<lambda>root rs.
                 list_all2 (\<lambda>f r. \<exists>ck. r = fst (handleActive_item ext now user root
                      ((BuildActiveMap ext (FlattenTree ext (root_Item root) tree) activeAfter)
                         (ID (root_Item root) \<mapsto> ActiveMapChild)) f ck))
                   (FlattenTree ext (root_Item root) tree) rs) roots rss"
    by auto
  have "list_all2 (\<lambda>root rs. map resp_By rs =
                     map (\<lambda>f. if user = 1 then By (Item f) else [])
                       (FlattenTree ext (root_Item root) tree)) roots rss"
    using all
  proof (rule list_all2_mono)
    fix root rs
    assume "list_all2 (\<lambda>f r. \<exists>ck. r = fst (handleActive_item ext now user root
                      ((BuildActiveMap ext (FlattenTree ext (root_Item root) tree) activeAfter)
                         (ID (root_Item root) \<mapsto> ActiveMapChild)) f ck))
                   (FlattenTree ext (root_Item root) tree) rs"
    then have "list_all2 (\<lambda>f r. resp_By r = (if user = 1 then By (Item f) else []))
                 (FlattenTree ext (root_Item root) tree) rs"
      by (rule list_all2_mono) (auto simp: handleActive_item_By)
    then show "map resp_By rs =
                 map (\<lambda>f. if user = 1 then By (Item f) else [])
                   (FlattenTree ext (root_Item root) tree)"
      by (rule list_all2_map_eq)
  qed
  then have "map resp_By (concat rss) =
               concat (map (\<lambda>root. map (\<lambda>f. if user = 1 then By (Item f) else [])
                                      (FlattenTree ext (root_Item root) tree)) roots)"
    by (rule list_all2_concat_eq)
  with rss show ?thesis by simp
qed

lemma handleItemDescendants_flat_By:
  "handleItemDescendants_flat ext user flat response c = (out, c')
     \<Longrightarrow> map desc_By out =
           map desc_By response @ map (\<lambda>f. if user = 1 then By (Item f) else []) flat"
  by (induction flat arbitrary: response c) (auto simp: Let_def split: prod.splits)

lemma handleItemDescendants_ok:
  assumes "handleItemDescendants ext idParam q c = Some (Reply st (Inr response), c')"
  obtains itemID items all allByParent item user where
    "Atoi idParam = Inr itemID"
    "GetItems ext [itemID] = Inr items"
    "GetDescendants ext items = Inr all"
    "GroupByParent ext all = Inr allByParent"
    "items itemID = Some item"
    "Atoi (DefaultQuery (q_user q) ''1'') = Inr user"
    "handleItemDescendants_flat ext user (FlattenTree ext item allByParent) [] c = (response, c')"
  using assms
  by (auto simp: handleItemDescendants_def Let_def split: sum.splits prod.splits option.splits)

lemma Atoi_default_user: "Atoi (DefaultQuery None ''1'') = Inr 1"
  by (simp add: DefaultQuery_def parse_defs)

text \<open>
  C10.  Let \<open>user\<close> be the parsed value of the query parameter of that name, with the
  default "1" when it is absent.  In a response of \<^verbatim>\<open>/active\<close> the author fields are, in
  order, those of the flattened items of the selected roots when \<open>user\<close> is 1, and all
  empty otherwise; the same holds for the response of \<^verbatim>\<open>/item/:id/tree\<close> and the flattened
  items of the requested item.  An absent parameter parses to 1.
\<close>

theorem C10_author_suppression:
  assumes "Atoi (DefaultQuery (q_user q) ''1'') = Inr user"
  shows "(\<forall>st resp c'. handleActive ext q now now2 c = (Reply st (Inr resp), c')
            \<longrightarrow> (\<exists>window maxAge minBy roots tree.
                   getActiveRoots ext now now2 (Time_Add now (dur_neg window)) maxAge minBy =
                     Inr (roots, tree, SecondChanceFailed resp)
                 \<and> map resp_By (Items resp) =
                     concat (map (\<lambda>root. map (\<lambda>f. if user = 1 then By (Item f) else [])
                                            (FlattenTree ext (root_Item root) tree)) roots)))
       \<and> (\<forall>st response c'.
             handleItemDescendants ext idParam q c = Some (Reply st (Inr response), c')
            \<longrightarrow> (\<exists>itemID items all allByParent item.
                   Atoi idParam = Inr itemID \<and> GetItems ext [itemID] = Inr items
                 \<and> GetDescendants ext items = Inr all \<and> GroupByParent ext all = Inr allByParent
                 \<and> items itemID = Some item
                 \<and> map desc_By response =
                     map (\<lambda>f. if user = 1 then By (Item f) else [])
                       (FlattenTree ext item allByParent)))
       \<and> (q_user q = None \<longrightarrow> user = 1)"
proof (intro conjI allI impI)
  fix st resp c'
  assume "handleActive ext q now now2 c = (Reply st (Inr resp), c')"
  then obtain window maxAge minBy user' roots tree where
    u: "Atoi (DefaultQuery (q_user q) ''1'') = Inr user'"
    and g: "getActiveRoots ext now now2 (Time_Add now (dur_neg window)) maxAge minBy =
              Inr (roots, tree, SecondChanceFailed resp)"
    and h: "handleActive_roots ext now (Time_Add now (dur_neg window)) user' tree roots [] c =
              (Items resp, c')"
    by (rule handleActive_ok)
  from u assms have "user' = user" by simp
  with handleActive_roots_By [OF h] g
  show "\<exists>window maxAge minBy roots tree.
          getActiveRoots ext now now2 (Time_Add now (dur_neg window)) maxAge minBy =
            Inr (roots, tree, SecondChanceFailed resp)
        \<and> map resp_By (Items resp) =
            concat (map (\<lambda>root. map (\<lambda>f. if user = 1 then By (Item f) else [])
                                   (FlattenTree ext (root_Item root) tree)) roots)"
    by blast
next
  fix st response c'
  assume "handleItemDescendants ext idParam q c = Some (Reply st (Inr response), c')"
  then obtain itemID items all allByParent item user' where
    facts: "Atoi idParam = Inr itemID" "GetItems ext [itemID] = Inr items"
      "GetDescendants ext items = Inr all" "GroupByParent ext all = Inr allByParent"
      "items itemID = Some item"
    and u: "Atoi (DefaultQuery (q_user q) ''1'') = Inr user'"
    and h: "handleItemDescendants_flat ext user' (FlattenTree ext item allByParent) [] c =
              (response, c')"
    by (rule handleItemDescendants_ok)
  from u assms have "user' = user" by simp
  with handleItemDescendants_flat_By [OF h]
  have "map desc_By response =
          map (\<lambda>f. if user = 1 then By (Item f) else []) (FlattenTree ext item allByParent)"
    by simp
  with facts
  show "\<exists>itemID items all allByParent item.
          Atoi idParam = Inr itemID \<and> GetItems ext [itemID] = Inr items
        \<and> GetDescendants ext items = Inr all \<and> GroupByParent ext all = Inr allByParent
        \<and> items itemID = Some item
        \<and> map desc_By response =
            map (\<lambda>f. if user = 1 then By (Item f) else []) (FlattenTree ext item allByParent)"
    by blast
next
  assume "q_user q = None"
  with assms Atoi_default_user show "user = 1" by simp
qed

lemma example_user_two: "Atoi (DefaultQuery (q_user (example_query (Some ''2''))) ''1'') = Inr 2"
  by (simp add: example_query_def DefaultQuery_def parse_defs)

lemma example_active_two:
  "handleActive example_backend (example_query (Some ''2'')) example_now example_now () =
     (Reply StatusOK (Inr \<lparr>Items = [example_item []], SecondChanceFailed = False\<rparr>), ())"
  by (simp add: example_defs handler_defs time_defs parse_defs)

lemma example_tree_two:
  "handleItemDescendants example_backend ''100'' (example_query (Some ''2'')) () =
     Some (Reply StatusOK
             (Inr [\<lparr>desc_By = [], desc_Text = ''a story'', desc_Time = 1699999880,
                    desc_ID = 100, desc_Depth = 0\<rparr>]), ())"
  by (simp add: handleItemDescendants_def example_defs handler_defs parse_defs)

theorem C10_author_suppression_witness:
  "Atoi (DefaultQuery (q_user (example_query (Some ''2''))) ''1'') = Inr 2
   \<and> handleActive example_backend (example_query (Some ''2'')) example_now example_now () =
       (Reply StatusOK (Inr \<lparr>Items = [example_item []], SecondChanceFailed = False\<rparr>), ())
   \<and> (\<exists>window maxAge minBy roots tree.
         getActiveRoots example_backend example_now example_now
           (Time_Add example_now (dur_neg window)) maxAge minBy =
           Inr (roots, tree,
                SecondChanceFailed \<lparr>Items = [example_item []], SecondChanceFailed = False\<rparr>)
       \<and> map resp_By (Items \<lparr>Items = [example_item []], SecondChanceFailed = False\<rparr>) =
           concat (map (\<lambda>root. map (\<lambda>f. if (2::int) = 1 then By (Item f) else [])
                                  (FlattenTree example_backend (root_Item root) tree)) roots))
   \<and> handleItemDescendants example_backend ''100'' (example_query (Some ''2'')) () =
       Some (Reply StatusOK
               (Inr [\<lparr>desc_By = [], desc_Text = ''a story'', desc_Time = 1699999880,
                      desc_ID = 100, desc_Depth = 0\<rparr>]), ())"
  by (intro conjI example_user_two example_active_two example_tree_two
      C10_author_suppression [OF example_user_two, of example_backend example_now example_now
        "()" "''100''", THEN conjunct1, rule_format, OF example_active_two])

section \<open>The order of the roots\<close>







text \<open>
  The comparison handed to the sort is the strict part of the order asked for: a sequence
  in which no later element compares less than an earlier one is in that order, whatever
  sorting algorithm produced it.
\<close>

lemma spec_rootOrder_iff: "spec_rootOrder a b \<longleftrightarrow> \<not> rootLess b a"
  by (auto simp: rootLess_def spec_rootOrder_def)






text \<open>
  The root selection of main.go has no sorting step of its own: it keeps the candidates in
  the order in which \<^verbatim>\<open>unl.GetActive\<close> delivers them.
\<close>

lemma getActiveRoots_keeps_order:
  "map root_Item (getActiveRoots_range frontPageTimes agedAfter items) =
     filter (\<lambda>item. agedAfter < (case frontPageTimes (ID item) of
                                    Some adjusted \<Rightarrow> adjusted | None \<Rightarrow> Time item) * Second)
       items"
  by (simp add: getActiveRoots_range_eq comp_def)

lemma getActiveRoots_range_sorted:
  assumes "sorted_wrt (\<lambda>x y. spec_rootOrder
             \<lparr>root_Item = x, root_Time = (case frontPageTimes (ID x) of
                                              Some adjusted \<Rightarrow> adjusted | None \<Rightarrow> Time x)\<rparr>
             \<lparr>root_Item = y, root_Time = (case frontPageTimes (ID y) of
                                              Some adjusted \<Rightarrow> adjusted | None \<Rightarrow> Time y)\<rparr>)
             items"
  shows "sorted_wrt spec_rootOrder (getActiveRoots_range frontPageTimes agedAfter items)"
  using assms
  by (induction items) (auto simp: getActiveRoots_range_eq)

lemma getActiveRoots_order_example:
  "getActiveRoots_range Map.empty example_agedAfter [example_story, example_story2] =
     [\<lparr>root_Item = example_story, root_Time = 1699999880\<rparr>,
      \<lparr>root_Item = example_story2, root_Time = 1699999880\<rparr>]"
  by (simp add: example_defs time_defs)

text \<open>
  The sorting revision takes the front-page time for an item only when it is later than
  the item's own creation time.
\<close>

lemma getActiveRoots_sorted_range_eq:
  "getActiveRoots_sorted_range frontPageTimes agedAfter items =
     map (\<lambda>item. \<lparr>root_Item = item,
                   root_Time = (case frontPageTimes (ID item) of
                                  Some updated \<Rightarrow> max (Time item) updated
                                | None \<Rightarrow> Time item)\<rparr>)
       (filter (\<lambda>item. agedAfter < (case frontPageTimes (ID item) of
                                      Some updated \<Rightarrow> max (Time item) updated
                                    | None \<Rightarrow> Time item) * Second)
          items)"
  by (induction items)
     (auto simp: Let_def Time_After_def time_Unix_def max_def split: option.splits)

end
